theory Spec2Isabelle
  imports Complex_Main "HOL-Library.Word"
begin

unbundle bit_operations_syntax

section \<open>Bloom filter (src/BloomFilter.ts)\<close>

text \<open>
  The filter keeps a \<open>Uint8Array\<close> of bits, the number of bits \<open>size\<close>, the number of
  hash functions \<open>hashCount\<close> and a counter of added elements. For a configuration with
  \<open>expectedElements > 0\<close> and \<open>0 < falsePositiveRate < 1\<close> the two sizes are positive
  integers; the filter is modelled for sizes that are natural numbers.
\<close>

record BloomFilter =
  bitArray :: "8 word list"
  size_bf :: nat
  hashCount :: nat
  elementCount :: nat

text \<open>
  The state the constructor builds for these sizes: \<open>new Uint8Array(Math.ceil(size / 8))\<close>
  is an array of that many zero bytes; \<open>elementCount\<close> starts at 0.
\<close>

definition BloomFilter_new :: "nat \<Rightarrow> nat \<Rightarrow> BloomFilter" where
  "BloomFilter_new sz hc =
     \<lparr>bitArray = replicate ((sz + 7) div 8) 0, size_bf = sz, hashCount = hc, elementCount = 0\<rparr>"

text \<open>
  \<open>hash(key, seed)\<close>: \<open>hash = ((hash << 5) - hash + char) & 0xffffffff\<close> for every
  code unit of the key, then \<open>Math.abs(hash)\<close>. The bitwise operators of JavaScript work on
  32-bit two's complement integers, so after each step \<open>hash\<close> is the signed reading of
  the 32-bit word computed here. For the empty key the loop does not run and the result is
  the seed itself. Keys are strings of 8-bit characters here, \<open>charCodeAt\<close> is \<open>of_char\<close>.
\<close>

definition hash_step :: "32 word \<Rightarrow> char \<Rightarrow> 32 word" where
  "hash_step h c = (push_bit 5 h - h + of_char c) AND 0xffffffff"

definition hash :: "string \<Rightarrow> nat \<Rightarrow> nat" where
  "hash key seed =
     (if key = [] then seed else nat \<bar>sint (foldl hash_step (word_of_nat seed) key)\<bar>)"

definition getHashes :: "BloomFilter \<Rightarrow> string \<Rightarrow> nat list" where
  "getHashes f key = map (hash key) [0..<hashCount f]"

text \<open>
  One iteration of the loop of \<open>add\<close>. With \<open>size = 0\<close> the index \<open>hashes[i] % size\<close> is
  \<open>NaN\<close> and the store to the typed array is ignored, as is a store past its end.
\<close>

definition setBit :: "nat \<Rightarrow> 8 word list \<Rightarrow> nat \<Rightarrow> 8 word list" where
  "setBit sz arr h =
     (if sz = 0 then arr
      else let bitIndex = h mod sz;
               byteIndex = bitIndex div 8;
               bitOffset = bitIndex mod 8
           in if byteIndex < length arr
              then arr[byteIndex := (arr ! byteIndex) OR push_bit bitOffset 1]
              else arr)"

text \<open>
  One iteration of the loop of \<open>mightContain\<close>: the test
  \<open>(bitArray[byteIndex] & (1 << bitOffset)) === 0\<close>, negated. A read at \<open>NaN\<close> or past
  the end of the array is \<open>undefined\<close>, and \<open>undefined & x\<close> is 0.
\<close>

definition testBit :: "nat \<Rightarrow> 8 word list \<Rightarrow> nat \<Rightarrow> bool" where
  "testBit sz arr h =
     (if sz = 0 then False
      else let bitIndex = h mod sz;
               byteIndex = bitIndex div 8;
               bitOffset = bitIndex mod 8
           in if byteIndex < length arr
              then (arr ! byteIndex) AND push_bit bitOffset 1 \<noteq> 0
              else False)"

definition add :: "BloomFilter \<Rightarrow> string \<Rightarrow> BloomFilter" where
  "add f key =
     (let hashes = getHashes f key
      in f\<lparr>bitArray := foldl (\<lambda>arr i. setBit (size_bf f) arr (hashes ! i))
                           (bitArray f) [0..<hashCount f],
           elementCount := elementCount f + 1\<rparr>)"

definition mightContain :: "BloomFilter \<Rightarrow> string \<Rightarrow> bool" where
  "mightContain f key =
     (let hashes = getHashes f key
      in list_all (\<lambda>i. testBit (size_bf f) (bitArray f) (hashes ! i)) [0..<hashCount f])"

definition clear :: "BloomFilter \<Rightarrow> BloomFilter" where
  "clear f = f\<lparr>bitArray := map (\<lambda>_. 0) (bitArray f), elementCount := 0\<rparr>"

section \<open>Values shared by the managers\<close>

text \<open>
  A thrown JavaScript \<open>Error\<close> with its message. Every function that can throw returns
  \<open>error + 'a\<close>, with \<open>Inl\<close> for the throw.
\<close>

datatype error = Error string

text \<open>
  Modelled from the spec: the Record envelope (the class \<open>storage/Record\<close> is missing
  from the source files). Its attributes are those of the data model, which the managers
  read and the repository's tests build: the key, the payload, which may be \<open>undefined\<close>,
  the time of creation and the time to live in milliseconds, the permanence flag and the
  tags with their versions.
\<close>

type_synonym Tag = "string \<times> int"

record 'v Record =
  r_key :: string
  r_value :: "'v option"
  createdAt :: int
  expiresIn :: int
  permanent :: bool
  tags :: "Tag list"

text \<open>
  Modelled from the spec: \<open>WriteOptions\<close> and \<open>ReadWriteOptions\<close> (declared in the
  missing \<open>storage/Storage\<close>), with the fields the managers use. Every field is optional.
  A callable \<open>tags\<close> stands here as the list it returns.
\<close>

record WriteOptions =
  opt_expiresIn :: "int option"
  opt_tags :: "string list option"
  opt_permanent :: "bool option"

definition emptyOptions :: WriteOptions where
  "emptyOptions = \<lparr>opt_expiresIn = None, opt_tags = None, opt_permanent = None\<rparr>"

text \<open>
  What a call does beyond returning is kept as the list of its calls to the logger, the
  storage, the executor and the base manager, in the order of the source.
\<close>

datatype loglevel = Trace | Info | Warn | Err

datatype 'r event =
    Log loglevel "string list" "error option"
  | StorageGet string
  | StorageIsOutdated "string Record"
  | StorageSet string 'r "WriteOptions option"
  | StorageLockKey string
  | StorageReleaseKey string
  | RunExecutor
  | UpdateCacheAndGetResult string
  | LevelGet string string
  | LevelSet string string string "int option"
  | LevelDel string string

text \<open>
  Modelled from the spec: the Storage contract of a single-tier manager
  (\<open>this.storage\<close>; the interface is declared in the missing \<open>storage/Storage\<close>). It is
  an external collaborator: each of its operations is given by its outcome, a value or a
  throw. A manager call uses each operation at most once on a given argument, so an
  outcome is a function of the arguments.
\<close>

record 'r Storage =
  st_get :: "string \<Rightarrow> error + string Record option"
  st_isOutdated :: "string Record \<Rightarrow> error + bool"
  st_set :: "string \<Rightarrow> 'r \<Rightarrow> WriteOptions option \<Rightarrow> error + 'r Record"
  st_lockKey :: "string \<Rightarrow> error + bool"
  st_releaseKey :: "string \<Rightarrow> error + bool"

text \<open>
  The state of a Read-Through and of a Write-Through manager: the storage (a field of
  \<open>BaseManager\<close>) and the optional Bloom filter.
\<close>

record 'r Manager =
  storage :: "'r Storage"
  bloomFilter :: "BloomFilter option"

text \<open>
  Functions the managers take from modules that are missing from the source files
  (\<open>runExecutor\<close> of \<open>Executor\<close>, \<open>deserialize\<close>, and \<open>updateCacheAndGetResult\<close> of
  \<open>BaseManager\<close>, called with the executor context \<open>{key, executor, options}\<close> and the
  options): they are parameters of the model, given by their outcomes. \<open>'e\<close> is the type
  of executors.
\<close>

record ('e, 'r) Imports =
  runExecutor :: "'e \<Rightarrow> error + 'r"
  deserialize :: "string \<Rightarrow> error + 'r"
  updateCacheAndGetResult :: "string \<times> 'e \<times> WriteOptions \<Rightarrow> WriteOptions \<Rightarrow> error + 'r"

text \<open>
  The pre-check at the head of every \<open>get\<close>: with a Bloom filter that does not contain the
  key, the manager runs the executor at once and reads no storage.
\<close>

definition bloomAllows :: "BloomFilter option \<Rightarrow> string \<Rightarrow> bool" where
  "bloomAllows bf key = (case bf of None \<Rightarrow> True | Some f \<Rightarrow> mightContain f key)"

definition bloomAdd :: "BloomFilter option \<Rightarrow> string \<Rightarrow> BloomFilter option" where
  "bloomAdd bf key = (case bf of None \<Rightarrow> None | Some f \<Rightarrow> Some (add f key))"

definition quoted :: "string \<Rightarrow> string" where
  "quoted s = [CHR 0x22] @ s @ [CHR 0x22]"

definition bloomMissEvents :: "string \<Rightarrow> 'r event list" where
  "bloomMissEvents key =
     [Log Trace [''Bloom filter indicates key '' @ quoted key @
                 '' definitely doesn't exist, running executor directly''] None,
      RunExecutor]"

definition bloomPassEvents :: "BloomFilter option \<Rightarrow> string \<Rightarrow> string \<Rightarrow> 'r event list" where
  "bloomPassEvents bf key what =
     (case bf of None \<Rightarrow> []
      | Some _ \<Rightarrow> [Log Trace [''Bloom filter indicates key '' @ quoted key @
                              '' might exist, checking '' @ what] None])"

section \<open>Construction of a Bloom filter\<close>

text \<open>
  The constructor of \<open>BloomFilter\<close> computes \<open>size\<close> and \<open>hashCount\<close> from
  \<open>expectedElements\<close> and \<open>falsePositiveRate\<close> with \<open>Math.log\<close> on doubles. That
  arithmetic is not modelled; the options stand here as what it gives: the bit count and
  the hash count, two natural numbers, or the error that \<open>new Uint8Array\<close> throws when it
  cannot allocate \<open>Math.ceil(size / 8)\<close> bytes (a \<open>RangeError\<close>, for a size that is
  infinite, below -7 or beyond the limit of the engine), and \<open>expectedElements\<close> as the
  log prints it.
\<close>

datatype sizing = Sized nat nat | Unallocatable error

record BloomFilterOptions =
  bo_expectedElements :: string
  bo_sizing :: sizing

definition digit :: "nat \<Rightarrow> char" where
  "digit d = ''0123456789'' ! d"

fun string_of_nat :: "nat \<Rightarrow> string" where
  "string_of_nat n =
     (if n < 10 then [digit n] else string_of_nat (n div 10) @ [digit (n mod 10)])"

text \<open>
  The constructor allocates the array, which may throw, and then logs its line; it gives
  the filter and the line, or the throw.
\<close>

definition BloomFilter_constructor ::
  "BloomFilterOptions \<Rightarrow> error + BloomFilter \<times> 'r event list" where
  "BloomFilter_constructor options =
     (case bo_sizing options of
        Unallocatable e \<Rightarrow> Inl e
      | Sized sz hc \<Rightarrow>
          Inr (BloomFilter_new sz hc,
               [Log Info [''Bloom filter initialized with size: '' @ string_of_nat sz @
                          '', hash functions: '' @ string_of_nat hc @
                          '', expected elements: '' @ bo_expectedElements options] None]))"

section \<open>Read-Through manager (ReadThroughManager)\<close>

text \<open>
  \<open>isRecordValid\<close> with \<open>Date.now()\<close> as \<open>currentDate\<close>. Times are integers, on which
  \<open>Number(x) || 0\<close> is \<open>x\<close>.
\<close>

definition ReadThrough_isRecordValid :: "int \<Rightarrow> 'v Record option \<Rightarrow> bool" where
  "ReadThrough_isRecordValid currentDate record =
     (case record of
        None \<Rightarrow> False
      | Some r \<Rightarrow>
          let recordExpireDate = createdAt r + expiresIn r;
              isExpired = (\<not> permanent r \<and> currentDate > recordExpireDate)
          in if isExpired then False else r_value r \<noteq> None)"

text \<open>
  \<open>get\<close> returns the value or the throw, the manager (whose Bloom filter may have a key
  more) and the events.
\<close>

definition ReadThrough_get ::
  "('e, 'r) Imports \<Rightarrow> int \<Rightarrow> 'r Manager \<Rightarrow> string \<Rightarrow> 'e \<Rightarrow> WriteOptions
     \<Rightarrow> (error + 'r) \<times> 'r Manager \<times> 'r event list" where
  "ReadThrough_get imp currentDate this key executor options =
     (if \<not> bloomAllows (bloomFilter this) key
      then (runExecutor imp executor, this, bloomMissEvents key)
      else
        let ev = bloomPassEvents (bloomFilter this) key ''storage'' @ [StorageGet key];
            recompute = (\<lambda>ev. (updateCacheAndGetResult imp (key, executor, options) options,
                               this, ev @ [UpdateCacheAndGetResult key]))
        in case st_get (storage this) key of
             Inl e \<Rightarrow>
               (runExecutor imp executor, this,
                ev @ [Log Err [''Failed to get value from storage, falling back to executor'']
                        (Some e),
                      RunExecutor])
           | Inr record \<Rightarrow>
               if ReadThrough_isRecordValid currentDate record
               then (case record of
                       None \<Rightarrow> recompute ev
                     | Some r \<Rightarrow>
                         (case st_isOutdated (storage this) r of
                            Inl e \<Rightarrow> (Inl e, this, ev @ [StorageIsOutdated r])
                          | Inr outdated \<Rightarrow>
                              if \<not> outdated
                              then (case r_value r of
                                      None \<Rightarrow> recompute (ev @ [StorageIsOutdated r])
                                    | Some v \<Rightarrow>
                                        (case deserialize imp v of
                                           Inl e \<Rightarrow> (Inl e, this, ev @ [StorageIsOutdated r])
                                         | Inr result \<Rightarrow>
                                             (Inr result,
                                              this\<lparr>bloomFilter := bloomAdd (bloomFilter this) key\<rparr>,
                                              ev @ [StorageIsOutdated r])))
                              else recompute (ev @ [StorageIsOutdated r])))
               else recompute ev)"

definition ReadThrough_set ::
  "'r Manager \<Rightarrow> string \<Rightarrow> 'r \<Rightarrow> WriteOptions option
     \<Rightarrow> (error + 'r Record) \<times> 'r Manager \<times> 'r event list" where
  "ReadThrough_set this key v options =
     (case st_set (storage this) key v options of
        Inl e \<Rightarrow> (Inl e, this, [StorageSet key v options])
      | Inr record \<Rightarrow>
          (Inr record, this\<lparr>bloomFilter := bloomAdd (bloomFilter this) key\<rparr>,
           [StorageSet key v options]))"

section \<open>Write-Through manager (WriteThroughManager)\<close>

definition WriteThrough_isRecordValid :: "'v Record option \<Rightarrow> bool" where
  "WriteThrough_isRecordValid record =
     (case record of None \<Rightarrow> False | Some r \<Rightarrow> r_value r \<noteq> None)"

definition WriteThrough_get ::
  "('e, 'r) Imports \<Rightarrow> 'r Manager \<Rightarrow> string \<Rightarrow> 'e \<Rightarrow> WriteOptions
     \<Rightarrow> (error + 'r) \<times> 'r Manager \<times> 'r event list" where
  "WriteThrough_get imp this key executor options =
     (if \<not> bloomAllows (bloomFilter this) key
      then (runExecutor imp executor, this, bloomMissEvents key)
      else
        let ev = bloomPassEvents (bloomFilter this) key ''storage'' @ [StorageGet key];
            recompute = (updateCacheAndGetResult imp (key, executor, options) options,
                         this, ev @ [Log Trace [''miss'', key] None, UpdateCacheAndGetResult key])
        in case st_get (storage this) key of
             Inl e \<Rightarrow>
               (runExecutor imp executor, this,
                ev @ [Log Err [''Failed to get value from storage, falling back to executor'']
                        (Some e),
                      RunExecutor])
           | Inr record \<Rightarrow>
               if WriteThrough_isRecordValid record
               then (case record of
                       None \<Rightarrow> recompute
                     | Some r \<Rightarrow>
                         (case r_value r of
                            None \<Rightarrow> recompute
                          | Some v \<Rightarrow>
                              (case deserialize imp v of
                                 Inl e \<Rightarrow> (Inl e, this, ev @ [Log Trace [''hit'', key] None])
                               | Inr result \<Rightarrow>
                                   (Inr result,
                                    this\<lparr>bloomFilter := bloomAdd (bloomFilter this) key\<rparr>,
                                    ev @ [Log Trace [''hit'', key] None]))))
               else recompute)"

text \<open>
  \<open>set\<close> spreads the caller's options, which may be absent, and overrides \<open>permanent\<close>:
  \<open>{ ...options, permanent: true }\<close>.
\<close>

definition WriteThrough_set ::
  "'r Manager \<Rightarrow> string \<Rightarrow> 'r \<Rightarrow> WriteOptions option
     \<Rightarrow> (error + 'r Record) \<times> 'r Manager \<times> 'r event list" where
  "WriteThrough_set this key v options =
     (let spread = (case options of None \<Rightarrow> emptyOptions | Some opts \<Rightarrow> opts);
          written = Some (spread\<lparr>opt_permanent := Some True\<rparr>)
      in case st_set (storage this) key v written of
           Inl e \<Rightarrow> (Inl e, this, [StorageSet key v written])
         | Inr record \<Rightarrow>
             (Inr record, this\<lparr>bloomFilter := bloomAdd (bloomFilter this) key\<rparr>,
              [StorageSet key v written]))"

section \<open>Refresh-Ahead manager (RefreshAheadManager)\<close>

text \<open>
  The factor is a JavaScript number: \<open>NaN\<close>, an infinity or a finite double. A finite
  double is the rational number it denotes, so its comparisons with 0, 1 and the clock
  are exact. The product and the sum of \<open>isRecordExpireSoon\<close> are those of IEEE 754
  binary64: the exact result rounded to the nearest double, ties to the even significand,
  and to an infinity beyond the largest double.
\<close>

datatype jsnum = NaN | PosInf | NegInf | Fin rat

text \<open>The number of binary digits of a positive integer.\<close>

function bitLength :: "int \<Rightarrow> int" where
  "bitLength n = (if n \<le> 0 then 0 else 1 + bitLength (n div 2))"
  by auto
termination
  by (relation "measure nat") auto

declare bitLength.simps [simp del]

definition pow2 :: "int \<Rightarrow> rat" where
  "pow2 e = (if 0 \<le> e then 2 ^ nat e else 1 / 2 ^ nat (- e))"

text \<open>For \<open>a > 0\<close>, the exponent \<open>k\<close> with \<open>2 ^ k \<le> a < 2 ^ (k + 1)\<close>.\<close>

definition floorLog2 :: "rat \<Rightarrow> int" where
  "floorLog2 a =
     (if 1 \<le> a then bitLength \<lfloor>a\<rfloor> - 1 else - bitLength (\<lceil>1 / a\<rceil> - 1))"

definition roundHalfEven :: "rat \<Rightarrow> int" where
  "roundHalfEven s =
     (let f = \<lfloor>s\<rfloor>; r = s - of_int f
      in if r < 1 / 2 then f else if 1 / 2 < r then f + 1 else if even f then f else f + 1)"

text \<open>
  For \<open>a > 0\<close>, the double nearest to \<open>a\<close>: a significand of at most 53 bits at the
  exponent of \<open>a\<close>, which is at least -1074 (below that the doubles are subnormal), or
  nothing when the rounded value is \<open>2 ^ 1024\<close> or more.
\<close>

definition nearestDouble :: "rat \<Rightarrow> rat option" where
  "nearestDouble a =
     (let e = max (- 1074) (floorLog2 a - 52);
          m = roundHalfEven (a / pow2 e);
          v = of_int m * pow2 e
      in if 2 ^ 1024 \<le> v then None else Some v)"

definition toDouble :: "rat \<Rightarrow> jsnum" where
  "toDouble q =
     (if q = 0 then Fin 0
      else if 0 < q then (case nearestDouble q of None \<Rightarrow> PosInf | Some v \<Rightarrow> Fin v)
      else (case nearestDouble (- q) of None \<Rightarrow> NegInf | Some v \<Rightarrow> Fin (- v)))"

text \<open>The literal \<open>0.8\<close> is the double nearest to 8/10.\<close>

definition DEFAULT_REFRESH_AHEAD_FACTOR :: jsnum where
  "DEFAULT_REFRESH_AHEAD_FACTOR = toDouble (8 / 10)"

definition js_falsy :: "jsnum \<Rightarrow> bool" where
  "js_falsy x = (x = NaN \<or> x = Fin 0)"





record 'r RefreshAheadManager =
  ra_storage :: "'r Storage"
  ra_bloomFilter :: "BloomFilter option"
  refreshAheadFactor :: jsnum

text \<open>
  The options of the constructor. \<open>bloomFilterOptions\<close> stands as the options that the
  constructor hands to \<open>new BloomFilter\<close>, after the defaults of \<open>||\<close>.
\<close>

record 'r RefreshAheadManagerOptions =
  o_storage :: "'r Storage"
  o_refreshAheadFactor :: "jsnum option"
  o_enableBloomFilter :: bool
  o_bloomFilterOptions :: "BloomFilterOptions option"

text \<open>
  The constructor: \<open>options.refreshAheadFactor || DEFAULT_REFRESH_AHEAD_FACTOR\<close>, then the
  range check under \<open>isFinite\<close>, then the Bloom filter, whose construction may throw. It
  returns the manager and the lines it logs, or the throw.
\<close>

definition RefreshAheadManager_constructor ::
  "'r RefreshAheadManagerOptions \<Rightarrow> error + 'r RefreshAheadManager \<times> 'r event list" where
  "RefreshAheadManager_constructor options =
     (let factor = (case o_refreshAheadFactor options of
                      None \<Rightarrow> DEFAULT_REFRESH_AHEAD_FACTOR
                    | Some x \<Rightarrow> if js_falsy x then DEFAULT_REFRESH_AHEAD_FACTOR else x);
          plain = (\<lparr>ra_storage = o_storage options,
                    ra_bloomFilter = None,
                    refreshAheadFactor = factor\<rparr>, []);
          built =
            (if o_enableBloomFilter options
             then (case o_bloomFilterOptions options of
                     None \<Rightarrow> Inr plain
                   | Some bo \<Rightarrow>
                       (case BloomFilter_constructor bo of
                          Inl e \<Rightarrow> Inl e
                        | Inr (bf, ev) \<Rightarrow>
                            Inr (\<lparr>ra_storage = o_storage options,
                                  ra_bloomFilter = Some bf,
                                  refreshAheadFactor = factor\<rparr>,
                                 ev @ [Log Info
                                         [''RefreshAheadManager initialized with Bloom filter'']
                                         None])))
             else Inr plain)
      in case factor of
           Fin q \<Rightarrow>
             if q \<le> 0 then Inl (Error ''Refresh-Ahead factor should be more than 0'')
             else if q \<ge> 1 then Inl (Error ''Refresh-Ahead factor should be under 1'')
             else built
         | _ \<Rightarrow> built)"

definition RefreshAhead_isRecordValid :: "int \<Rightarrow> 'v Record option \<Rightarrow> bool" where
  "RefreshAhead_isRecordValid currentDate record =
     (case record of
        None \<Rightarrow> False
      | Some r \<Rightarrow>
          let recordExpireDate = createdAt r + expiresIn r;
              isExpired = (\<not> permanent r \<and> currentDate > recordExpireDate)
          in if isExpired then False else r_value r \<noteq> None)"




definition RefreshAhead_set ::
  "'r RefreshAheadManager \<Rightarrow> string \<Rightarrow> 'r \<Rightarrow> WriteOptions option
     \<Rightarrow> (error + 'r Record) \<times> 'r RefreshAheadManager \<times> 'r event list" where
  "RefreshAhead_set this key v options =
     (case st_set (ra_storage this) key v options of
        Inl e \<Rightarrow> (Inl e, this, [StorageSet key v options])
      | Inr record \<Rightarrow>
          (Inr record, this\<lparr>ra_bloomFilter := bloomAdd (ra_bloomFilter this) key\<rparr>,
           [StorageSet key v options]))"

section \<open>Multi-Level manager (MultiLevelManager)\<close>

text \<open>
  Modelled from the spec: the raw interface of a storage adapter (\<open>StorageAdapter\<close> is
  declared in a missing file), through which the storage of a level is used: \<open>get\<close> gives
  a string or nothing, \<open>set(key, raw, ttl)\<close> and \<open>del\<close> give a boolean, and each may
  throw.
\<close>

record StorageAdapter =
  sa_get :: "string \<Rightarrow> error + string option"
  sa_set :: "string \<Rightarrow> string \<Rightarrow> int option \<Rightarrow> error + bool"
  sa_del :: "string \<Rightarrow> error + bool"

record CacheLevel =
  name :: string
  l_storage :: StorageAdapter
  priority :: int
  ttl :: "int option"
  enabled :: bool

record LevelMetrics =
  hits :: nat
  misses :: nat
  sets :: nat
  dels :: nat

datatype FallbackStrategy = FbExecutor | FbNextLevel | FbFail

text \<open>
  The counters are kept by level name. The constructor creates those of every level and
  nothing adds, removes or renames a level afterwards, so a lookup by the name of a level
  is always defined: the table is a total function.
\<close>

record MultiLevelManager =
  ml_bloomFilter :: "BloomFilter option"
  levels :: "CacheLevel list"
  metrics :: "string \<Rightarrow> LevelMetrics"
  fallbackStrategy :: "FallbackStrategy option"

record MultiLevelManagerOptions =
  mo_levels :: "CacheLevel list"
  mo_fallbackStrategy :: "FallbackStrategy option"
  mo_enableBloomFilter :: bool
  mo_bloomFilterOptions :: "BloomFilterOptions option"

text \<open>
  Beyond the imports of the other managers: \<open>JSON.stringify\<close> and the constructor of
  \<open>Record\<close>, which are parameters too.
\<close>

record ('e, 'r) MultiLevelImports = "('e, 'r) Imports" +
  stringify :: "'r \<Rightarrow> string"
  newRecord :: "string \<Rightarrow> 'r \<Rightarrow> Tag list \<Rightarrow> WriteOptions \<Rightarrow> 'r Record"

definition zeroMetrics :: LevelMetrics where
  "zeroMetrics = \<lparr>hits = 0, misses = 0, sets = 0, dels = 0\<rparr>"

definition incHits :: "(string \<Rightarrow> LevelMetrics) \<Rightarrow> string \<Rightarrow> (string \<Rightarrow> LevelMetrics)" where
  "incHits m n = m(n := (m n)\<lparr>hits := hits (m n) + 1\<rparr>)"

definition incMisses :: "(string \<Rightarrow> LevelMetrics) \<Rightarrow> string \<Rightarrow> (string \<Rightarrow> LevelMetrics)" where
  "incMisses m n = m(n := (m n)\<lparr>misses := misses (m n) + 1\<rparr>)"

definition incSets :: "(string \<Rightarrow> LevelMetrics) \<Rightarrow> string \<Rightarrow> (string \<Rightarrow> LevelMetrics)" where
  "incSets m n = m(n := (m n)\<lparr>sets := sets (m n) + 1\<rparr>)"

definition incDels :: "(string \<Rightarrow> LevelMetrics) \<Rightarrow> string \<Rightarrow> (string \<Rightarrow> LevelMetrics)" where
  "incDels m n = m(n := (m n)\<lparr>dels := dels (m n) + 1\<rparr>)"

text \<open>
  The constructor sorts a copy of the levels by priority (\<open>Array.prototype.sort\<close> is
  stable, as \<open>sort_key\<close> is), builds the Bloom filter, which may throw, and creates the
  counters. It returns the manager and the lines it logs, or the throw.
\<close>

definition MultiLevelManager_constructor ::
  "MultiLevelManagerOptions \<Rightarrow> error + MultiLevelManager \<times> 'r event list" where
  "MultiLevelManager_constructor options =
     (let sorted = sort_key priority (mo_levels options);
          finish = (\<lambda>bf ev.
            Inr (\<lparr>ml_bloomFilter = bf,
                  levels = sorted,
                  metrics = foldl (\<lambda>m level. m(name level := zeroMetrics))
                              (\<lambda>_. zeroMetrics) sorted,
                  fallbackStrategy = mo_fallbackStrategy options\<rparr>,
                 ev @ [Log Info [''MultiLevelManager initialized with '' @
                                 string_of_nat (length sorted) @ '' levels''] None]))
      in if mo_enableBloomFilter options
         then (case mo_bloomFilterOptions options of
                 None \<Rightarrow> finish None []
               | Some bo \<Rightarrow>
                   (case BloomFilter_constructor bo of
                      Inl e \<Rightarrow> Inl e
                    | Inr (bf, ev) \<Rightarrow>
                        finish (Some bf)
                          (ev @ [Log Info [''MultiLevelManager initialized with Bloom filter'']
                                   None])))
         else finish None [])"

text \<open>\<open>Array.prototype.findIndex\<close>: the index of the first match, or -1.\<close>

fun findIndex :: "('a \<Rightarrow> bool) \<Rightarrow> 'a list \<Rightarrow> int" where
  "findIndex P [] = -1"
| "findIndex P (x # xs) =
     (if P x then 0 else (let i = findIndex P xs in if i < 0 then -1 else i + 1))"

text \<open>
  The body of the loop of \<open>populateHigherLevels\<close> for one level: the level's \<open>ttl\<close>, if
  truthy, replaces \<open>options.expiresIn\<close>; a throw of the write is logged.
\<close>

definition warmLevel ::
  "('e, 'r, 'z) MultiLevelImports_scheme \<Rightarrow> CacheLevel \<Rightarrow> string \<Rightarrow> 'r \<Rightarrow> WriteOptions
     \<Rightarrow> 'r event list" where
  "warmLevel imp level key v options =
     (if \<not> enabled level then []
      else
        let expires = (case ttl level of
                         None \<Rightarrow> opt_expiresIn options
                       | Some t \<Rightarrow> if t \<noteq> 0 then Some t else opt_expiresIn options);
            serializedValue = stringify imp v
        in LevelSet (name level) key serializedValue expires #
           (case sa_set (l_storage level) key serializedValue expires of
              Inl e \<Rightarrow> [Log Warn [''Failed to warm level: '' @ name level @
                                   '' with key: '' @ key @ '':''] (Some e)]
            | Inr _ \<Rightarrow> [Log Trace [''Warmed level: '' @ name level @
                                    '' with key: '' @ key] None]))"

definition populateHigherLevels ::
  "('e, 'r, 'z) MultiLevelImports_scheme \<Rightarrow> MultiLevelManager \<Rightarrow> string \<Rightarrow> 'r \<Rightarrow> WriteOptions
     \<Rightarrow> 'r event list" where
  "populateHigherLevels imp this key v options =
     (let foundLevelIndex = findIndex enabled (levels this)
      in if foundLevelIndex \<le> 0 then []
         else concat (map (\<lambda>i. warmLevel imp (levels this ! i) key v options)
                        [0..<nat foundLevelIndex]))"

text \<open>
  The loop of \<open>get\<close> over the levels that are left, with the counters and the events so
  far. It ends with the value of the first hit and the Bloom filter with the key added, or
  with nothing when no level is left. A throw of \<open>storage.get\<close> or of \<open>deserialize\<close> is
  caught inside the loop, which counts a miss and goes on.
\<close>

fun walkLevels ::
  "('e, 'r, 'z) MultiLevelImports_scheme \<Rightarrow> MultiLevelManager \<Rightarrow> string \<Rightarrow> WriteOptions
     \<Rightarrow> CacheLevel list \<Rightarrow> (string \<Rightarrow> LevelMetrics) \<Rightarrow> 'r event list
     \<Rightarrow> 'r option \<times> BloomFilter option \<times> (string \<Rightarrow> LevelMetrics) \<times> 'r event list" where
  "walkLevels imp this key options [] m ev = (None, ml_bloomFilter this, m, ev)"
| "walkLevels imp this key options (level # rest) m ev =
     (if \<not> enabled level
      then walkLevels imp this key options rest m
             (ev @ [Log Trace [''Skipping disabled level: '' @ name level] None])
      else
        let ev1 = ev @ [Log Trace [''Checking level: '' @ name level @ '' for key: '' @ key] None,
                        LevelGet (name level) key];
            caught = (\<lambda>m e ev. walkLevels imp this key options rest (incMisses m (name level))
                                 (ev @ [Log Warn [''Error accessing level '' @ name level @ '':'']
                                          (Some e)]));
            missed = walkLevels imp this key options rest (incMisses m (name level)) ev1
        in case sa_get (l_storage level) key of
             Inl e \<Rightarrow> caught m e ev1
           | Inr None \<Rightarrow> missed
           | Inr (Some serializedValue) \<Rightarrow>
               if serializedValue = [] then missed
               else
                 let m1 = incHits m (name level);
                     ev2 = ev1 @ [Log Trace [''Hit in level: '' @ name level @
                                            '' for key: '' @ key] None]
                 in case deserialize imp serializedValue of
                      Inl e \<Rightarrow> caught m1 e ev2
                    | Inr result \<Rightarrow>
                        (Some result, bloomAdd (ml_bloomFilter this) key, m1,
                         ev2 @ populateHigherLevels imp this key result options))"

text \<open>
  The loop of \<open>set\<close>, with \<open>usedExpiresIn\<close>, the counters and the events so far:
  \<open>level.ttl ?? options?.expiresIn ?? 0\<close> is the time to live of the write.
\<close>

fun setLevels ::
  "string \<Rightarrow> string \<Rightarrow> WriteOptions option \<Rightarrow> CacheLevel list
     \<Rightarrow> int \<times> (string \<Rightarrow> LevelMetrics) \<times> 'r event list
     \<Rightarrow> int \<times> (string \<Rightarrow> LevelMetrics) \<times> 'r event list" where
  "setLevels key serializedValue options [] acc = acc"
| "setLevels key serializedValue options (level # rest) (usedExpiresIn, m, ev) =
     (if \<not> enabled level
      then setLevels key serializedValue options rest (usedExpiresIn, m, ev)
      else
        let expires = (case ttl level of
                         Some t \<Rightarrow> t
                       | None \<Rightarrow> (case options of
                                    None \<Rightarrow> 0
                                  | Some opts \<Rightarrow> (case opt_expiresIn opts of
                                                   None \<Rightarrow> 0 | Some x \<Rightarrow> x)));
            used = (if usedExpiresIn = 0 then expires else usedExpiresIn);
            ev1 = ev @ [LevelSet (name level) key serializedValue (Some expires)]
        in case sa_set (l_storage level) key serializedValue (Some expires) of
             Inl e \<Rightarrow>
               setLevels key serializedValue options rest
                 (used, m,
                  ev1 @ [Log Warn [''Failed to set key: '' @ key @ '' in level: '' @
                                   name level @ '':''] (Some e)])
           | Inr success \<Rightarrow>
               if success
               then setLevels key serializedValue options rest
                      (used, incSets m (name level),
                       ev1 @ [Log Trace [''Successfully set key: '' @ key @ '' in level: '' @
                                         name level] None])
               else setLevels key serializedValue options rest (used, m, ev1))"

definition MultiLevel_set ::
  "('e, 'r, 'z) MultiLevelImports_scheme \<Rightarrow> int \<Rightarrow> MultiLevelManager \<Rightarrow> string \<Rightarrow> 'r
     \<Rightarrow> WriteOptions option \<Rightarrow> 'r Record \<times> MultiLevelManager \<times> 'r event list" where
  "MultiLevel_set imp now this key v options =
     (let serializedValue = stringify imp v;
          (usedExpiresIn, m, ev) =
            setLevels key serializedValue options (levels this) (0, metrics this, []);
          tagList = (case options of
                       None \<Rightarrow> []
                     | Some opts \<Rightarrow> (case opt_tags opts of
                                      None \<Rightarrow> []
                                    | Some tagNames \<Rightarrow> map (\<lambda>n. (n, now)) tagNames));
          spread = (case options of None \<Rightarrow> emptyOptions | Some opts \<Rightarrow> opts);
          record = newRecord imp key v tagList (spread\<lparr>opt_expiresIn := Some usedExpiresIn\<rparr>)
      in (record,
          this\<lparr>ml_bloomFilter := bloomAdd (ml_bloomFilter this) key, metrics := m\<rparr>,
          ev))"

definition handleExecutorFallback ::
  "('e, 'r, 'z) MultiLevelImports_scheme \<Rightarrow> int \<Rightarrow> MultiLevelManager \<Rightarrow> string \<Rightarrow> 'e
     \<Rightarrow> WriteOptions \<Rightarrow> (error + 'r) \<times> MultiLevelManager \<times> 'r event list" where
  "handleExecutorFallback imp now this key executor options =
     (let ev = [Log Trace [''Running executor for key: '' @ key] None, RunExecutor]
      in case runExecutor imp executor of
           Inl e \<Rightarrow> (Inl e, this, ev)
         | Inr result \<Rightarrow>
             (case MultiLevel_set imp now this key result (Some options) of
                (_, this', evs) \<Rightarrow> (Inr result, this', ev @ evs)))"

definition handleNextLevelFallback ::
  "('e, 'r, 'z) MultiLevelImports_scheme \<Rightarrow> int \<Rightarrow> MultiLevelManager \<Rightarrow> string \<Rightarrow> 'e
     \<Rightarrow> WriteOptions \<Rightarrow> (error + 'r) \<times> MultiLevelManager \<times> 'r event list" where
  "handleNextLevelFallback imp now this key executor options =
     (case handleExecutorFallback imp now this key executor options of
        (res, this', evs) \<Rightarrow>
          (res, this', Log Trace [''Trying next level fallback for key: '' @ key] None # evs))"

definition MultiLevel_get ::
  "('e, 'r, 'z) MultiLevelImports_scheme \<Rightarrow> int \<Rightarrow> MultiLevelManager \<Rightarrow> string \<Rightarrow> 'e
     \<Rightarrow> WriteOptions \<Rightarrow> (error + 'r) \<times> MultiLevelManager \<times> 'r event list" where
  "MultiLevel_get imp now this key executor options =
     (if \<not> bloomAllows (ml_bloomFilter this) key
      then (runExecutor imp executor, this, bloomMissEvents key)
      else
        case walkLevels imp this key options (levels this) (metrics this)
               (bloomPassEvents (ml_bloomFilter this) key ''cache levels'') of
          (Some result, bf, m, ev) \<Rightarrow>
            (Inr result, this\<lparr>ml_bloomFilter := bf, metrics := m\<rparr>, ev)
        | (None, _, m, ev) \<Rightarrow>
            let this' = this\<lparr>metrics := m\<rparr>;
                ev' = ev @ [Log Trace [''Cache miss for key: '' @ key @
                                       '', using fallback strategy''] None];
                continue = (\<lambda>(res, this'', evs). (res, this'', ev' @ evs))
            in case (case fallbackStrategy this of None \<Rightarrow> FbExecutor | Some f \<Rightarrow> f) of
                 FbExecutor \<Rightarrow> continue (handleExecutorFallback imp now this' key executor options)
               | FbNextLevel \<Rightarrow> continue (handleNextLevelFallback imp now this' key executor options)
               | FbFail \<Rightarrow> (Inl (Error (''Cache miss for key: '' @ key)), this', ev'))"

fun delLevels ::
  "string \<Rightarrow> CacheLevel list \<Rightarrow> bool \<times> (string \<Rightarrow> LevelMetrics) \<times> 'r event list
     \<Rightarrow> bool \<times> (string \<Rightarrow> LevelMetrics) \<times> 'r event list" where
  "delLevels key [] acc = acc"
| "delLevels key (level # rest) (success, m, ev) =
     (if \<not> enabled level then delLevels key rest (success, m, ev)
      else
        let ev1 = ev @ [LevelDel (name level) key];
            deleted = Log Trace [''Deleted key: '' @ key @ '' from level: '' @ name level] None
        in case sa_del (l_storage level) key of
             Inl e \<Rightarrow>
               delLevels key rest
                 (success, m,
                  ev1 @ [Log Warn [''Failed to delete key: '' @ key @ '' from level: '' @
                                   name level @ '':''] (Some e)])
           | Inr result \<Rightarrow>
               if result then delLevels key rest (True, incDels m (name level), ev1 @ [deleted])
               else delLevels key rest (success, m, ev1 @ [deleted]))"

definition MultiLevel_del ::
  "MultiLevelManager \<Rightarrow> string \<Rightarrow> bool \<times> MultiLevelManager \<times> 'r event list" where
  "MultiLevel_del this key =
     (case delLevels key (levels this) (False, metrics this, []) of
        (success, m, ev) \<Rightarrow> (success, this\<lparr>metrics := m\<rparr>, ev))"

text \<open>
  \<open>enableLevel\<close> and \<open>disableLevel\<close>: \<open>find\<close> gives the first level of that name, whose
  flag is set; with no such level nothing happens and nothing is logged.
\<close>

fun setEnabled :: "string \<Rightarrow> bool \<Rightarrow> CacheLevel list \<Rightarrow> CacheLevel list" where
  "setEnabled levelName b [] = []"
| "setEnabled levelName b (l # ls) =
     (if name l = levelName then l\<lparr>enabled := b\<rparr> # ls else l # setEnabled levelName b ls)"

definition enableLevel :: "MultiLevelManager \<Rightarrow> string \<Rightarrow> MultiLevelManager \<times> 'r event list" where
  "enableLevel this levelName =
     (case find (\<lambda>l. name l = levelName) (levels this) of
        None \<Rightarrow> (this, [])
      | Some _ \<Rightarrow>
          (this\<lparr>levels := setEnabled levelName True (levels this)\<rparr>,
           [Log Info [''Enabled level: '' @ levelName] None]))"

definition disableLevel :: "MultiLevelManager \<Rightarrow> string \<Rightarrow> MultiLevelManager \<times> 'r event list" where
  "disableLevel this levelName =
     (case find (\<lambda>l. name l = levelName) (levels this) of
        None \<Rightarrow> (this, [])
      | Some _ \<Rightarrow>
          (this\<lparr>levels := setEnabled levelName False (levels this)\<rparr>,
           [Log Info [''Disabled level: '' @ levelName] None]))"

definition getLevels :: "MultiLevelManager \<Rightarrow> CacheLevel list" where
  "getLevels this = levels this"

definition getLevelStats :: "MultiLevelManager \<Rightarrow> (string \<times> bool \<times> int) list" where
  "getLevelStats this = map (\<lambda>level. (name level, enabled level, priority level)) (levels this)"

section \<open>Predicates of the statements\<close>

text \<open>
  What the constructor of the Bloom filter establishes and \<open>add\<close> keeps: the sizes are
  fixed and the array has one bit for each index below \<open>size\<close>.
\<close>

definition bloom_inv :: "nat \<Rightarrow> nat \<Rightarrow> BloomFilter \<Rightarrow> bool" where
  "bloom_inv sz hc f =
     (size_bf f = sz \<and> hashCount f = hc \<and> length (bitArray f) = (sz + 7) div 8)"

text \<open>
  The words of the specification on records: a record is time-valid when it is permanent
  or \<open>now \<le> createdAt + expiresIn\<close>.
\<close>

definition spec_timeValid :: "int \<Rightarrow> 'v Record \<Rightarrow> bool" where
  "spec_timeValid now r = (permanent r \<or> now \<le> createdAt r + expiresIn r)"

text \<open>
  The condition of the specification for a Read-Through hit: the record exists with a
  defined value, is time-valid, and \<open>isOutdated\<close> answers false.
\<close>

definition spec_servable :: "'r Storage \<Rightarrow> int \<Rightarrow> string Record option \<Rightarrow> bool" where
  "spec_servable st now record =
     (case record of
        None \<Rightarrow> False
      | Some r \<Rightarrow> r_value r \<noteq> None \<and> spec_timeValid now r \<and> st_isOutdated st r = Inr False)"

text \<open>A level misses for a key when its \<open>get\<close> throws or gives nothing or the empty string.\<close>

definition levelMisses :: "CacheLevel \<Rightarrow> string \<Rightarrow> bool" where
  "levelMisses level key =
     (case sa_get (l_storage level) key of
        Inl _ \<Rightarrow> True
      | Inr None \<Rightarrow> True
      | Inr (Some s) \<Rightarrow> s = [])"

definition isLevelSet :: "'r event \<Rightarrow> bool" where
  "isLevelSet e = (case e of LevelSet _ _ _ _ \<Rightarrow> True | _ \<Rightarrow> False)"

text \<open>The events of a walk over levels that all miss: lines of the log and reads.\<close>

definition isLogOrRead :: "'r event \<Rightarrow> bool" where
  "isLogOrRead e = (case e of Log _ _ _ \<Rightarrow> True | LevelGet _ _ \<Rightarrow> True | _ \<Rightarrow> False)"

section \<open>Example configurations\<close>

text \<open>
  Concrete collaborators for the examples: values are strings that serialize to
  themselves, an executor is given by its outcome, and the base manager's recompute path
  gives the executor's outcome.
\<close>

definition exampleImports :: "(error + string, string) Imports" where
  "exampleImports =
     \<lparr>runExecutor = (\<lambda>executor. executor),
      deserialize = (\<lambda>s. Inr s),
      updateCacheAndGetResult = (\<lambda>(key, executor, opts) _. executor)\<rparr>"

definition exampleLevelImports :: "(error + string, string) MultiLevelImports" where
  "exampleLevelImports =
     \<lparr>runExecutor = (\<lambda>executor. executor),
      deserialize = (\<lambda>s. Inr s),
      updateCacheAndGetResult = (\<lambda>(key, executor, opts) _. executor),
      stringify = (\<lambda>v. v),
      newRecord = (\<lambda>key v tagList opts.
         \<lparr>r_key = key, r_value = Some v, createdAt = 0,
          expiresIn = (case opt_expiresIn opts of None \<Rightarrow> 0 | Some x \<Rightarrow> x),
          permanent = (opt_permanent opts = Some True), tags = tagList\<rparr>)\<rparr>"

text \<open>A record written at time 0 with a time to live of one second.\<close>

definition exampleRecord :: "bool \<Rightarrow> string Record" where
  "exampleRecord perm =
     \<lparr>r_key = ''k'', r_value = Some ''v'', createdAt = 0, expiresIn = 1000,
      permanent = perm, tags = []\<rparr>"


text \<open>
  A storage that holds the given record at every key. Its \<open>set\<close> builds the record it
  writes from the options, as the storage contract says: it honours \<open>permanent\<close> and
  \<open>expiresIn\<close>.
\<close>

definition holdingStorage :: "string Record option \<Rightarrow> string Storage" where
  "holdingStorage record =
     \<lparr>st_get = (\<lambda>_. Inr record),
      st_isOutdated = (\<lambda>_. Inr False),
      st_set = (\<lambda>key v options.
         Inr \<lparr>r_key = key, r_value = Some v, createdAt = 0,
              expiresIn = (case options of
                             None \<Rightarrow> 0
                           | Some opts \<Rightarrow> (case opt_expiresIn opts of None \<Rightarrow> 0 | Some x \<Rightarrow> x)),
              permanent = (case options of
                             None \<Rightarrow> False
                           | Some opts \<Rightarrow> opt_permanent opts = Some True),
              tags = []\<rparr>),
      st_lockKey = (\<lambda>_. Inr True),
      st_releaseKey = (\<lambda>_. Inr True)\<rparr>"

text \<open>The same storage, whose read of the tag versions fails.\<close>

definition tagFailingStorage :: "string Record option \<Rightarrow> string Storage" where
  "tagFailingStorage record =
     (holdingStorage record)\<lparr>st_isOutdated := (\<lambda>_. Inl (Error ''connection lost''))\<rparr>"

text \<open>A storage whose every operation fails.\<close>

definition failingStorage :: "string Storage" where
  "failingStorage =
     \<lparr>st_get = (\<lambda>_. Inl (Error ''connection lost'')),
      st_isOutdated = (\<lambda>_. Inl (Error ''connection lost'')),
      st_set = (\<lambda>_ _ _. Inl (Error ''connection lost'')),
      st_lockKey = (\<lambda>_. Inl (Error ''connection lost'')),
      st_releaseKey = (\<lambda>_. Inl (Error ''connection lost''))\<rparr>"

text \<open>
  The two levels of the repository's tests: memory before Redis, each with its own time
  to live. The adapters answer every \<open>get\<close> with the given value.
\<close>

definition answering :: "string option \<Rightarrow> StorageAdapter" where
  "answering v =
     \<lparr>sa_get = (\<lambda>_. Inr v), sa_set = (\<lambda>_ _ _. Inr True), sa_del = (\<lambda>_. Inr True)\<rparr>"

definition twoLevels :: "string option \<Rightarrow> string option \<Rightarrow> CacheLevel list" where
  "twoLevels v1 v2 =
     [\<lparr>name = ''L2-Redis'', l_storage = answering v2, priority = 2, ttl = Some 3600000,
       enabled = True\<rparr>,
      \<lparr>name = ''L1-Memory'', l_storage = answering v1, priority = 1, ttl = Some 60000,
       enabled = True\<rparr>]"

text \<open>
  The managers that the constructor builds from them: one without a Bloom filter, and one
  with the Bloom filter of 96 bits and 7 hash functions that ten expected elements at a
  false positive rate of 0.01 give.
\<close>

definition exampleManager ::
  "FallbackStrategy \<Rightarrow> string option \<Rightarrow> string option \<Rightarrow> MultiLevelManager" where
  "exampleManager fb v1 v2 =
     \<lparr>ml_bloomFilter = None,
      levels = sort_key priority (twoLevels v1 v2),
      metrics = foldl (\<lambda>m level. m(name level := zeroMetrics)) (\<lambda>_. zeroMetrics)
                  (sort_key priority (twoLevels v1 v2)),
      fallbackStrategy = Some fb\<rparr>"

definition bloomManager ::
  "FallbackStrategy \<Rightarrow> string option \<Rightarrow> string option \<Rightarrow> MultiLevelManager" where
  "bloomManager fb v1 v2 = (exampleManager fb v1 v2)\<lparr>ml_bloomFilter := Some (BloomFilter_new 96 7)\<rparr>"

section \<open>Properties of the Bloom filter\<close>

lemma length_setBit [simp]: "length (setBit sz arr h) = length arr"
  by (simp add: setBit_def Let_def)




lemma length_foldl_setBit [simp]:
  "length (foldl (\<lambda>arr i. setBit sz arr (hs ! i)) arr js) = length arr"
  by (induction js arbitrary: arr) simp_all




lemma bloom_inv_add: "bloom_inv sz hc f \<Longrightarrow> bloom_inv sz hc (add f k)"
  by (simp add: bloom_inv_def add_def Let_def)

lemma bloom_inv_adds: "bloom_inv sz hc f \<Longrightarrow> bloom_inv sz hc (foldl add f ks)"
  by (induction ks arbitrary: f) (simp_all add: bloom_inv_add)

lemma getHashes_add [simp]: "getHashes (add f k') k = getHashes f k"
  by (simp add: getHashes_def add_def Let_def)







section \<open>Properties of the Multi-Level manager\<close>

lemma findIndex_less_disabled:
  "int i < findIndex P xs \<Longrightarrow> \<not> P (xs ! i)"
proof (induction xs arbitrary: i)
  case Nil
  then show ?case by simp
next
  case (Cons x xs)
  show ?case
  proof (cases i)
    case 0
    with Cons.prems show ?thesis by (auto split: if_splits)
  next
    case (Suc j)
    with Cons.prems have "int j < findIndex P xs"
      by (auto simp add: Let_def split: if_splits)
    with Cons.IH Suc show ?thesis by simp
  qed
qed

text \<open>
  \<open>populateHigherLevels\<close> takes the first enabled level for the level of the hit, so
  every level before it is skipped as disabled: it never writes, whatever the state.
\<close>

lemma populateHigherLevels_writes_nothing:
  "populateHigherLevels imp this key v options = []"
proof -
  have "warmLevel imp (levels this ! i) key v options = []"
    if "i \<in> set [0..<nat (findIndex enabled (levels this))]" for i
  proof -
    from that have "int i < findIndex enabled (levels this)" by simp
    then have "\<not> enabled (levels this ! i)" by (rule findIndex_less_disabled)
    then show ?thesis by (simp add: warmLevel_def)
  qed
  then show ?thesis
    by (simp add: populateHigherLevels_def Let_def)
qed

text \<open>The example managers are what the constructor builds, with the lines it logs.\<close>

lemma exampleManager_constructed:
  "MultiLevelManager_constructor
     \<lparr>mo_levels = twoLevels v1 v2, mo_fallbackStrategy = Some fb,
      mo_enableBloomFilter = False, mo_bloomFilterOptions = None\<rparr>
   = Inr (exampleManager fb v1 v2,
          [Log Info [''MultiLevelManager initialized with 2 levels''] None])"
  by (simp add: MultiLevelManager_constructor_def exampleManager_def Let_def twoLevels_def
      digit_def)

lemma bloomManager_constructed:
  "MultiLevelManager_constructor
     \<lparr>mo_levels = twoLevels v1 v2, mo_fallbackStrategy = Some fb,
      mo_enableBloomFilter = True,
      mo_bloomFilterOptions =
        Some \<lparr>bo_expectedElements = ''10'', bo_sizing = Sized 96 7\<rparr>\<rparr>
   = Inr (bloomManager fb v1 v2,
          [Log Info [''Bloom filter initialized with size: 96, hash functions: 7, expected elements: 10'']
             None,
           Log Info [''MultiLevelManager initialized with Bloom filter''] None,
           Log Info [''MultiLevelManager initialized with 2 levels''] None])"
  by (simp add: MultiLevelManager_constructor_def BloomFilter_constructor_def bloomManager_def
      exampleManager_def Let_def twoLevels_def digit_def)

text \<open>A filter to which nothing was added contains no key, when it has a hash function.\<close>

lemma new_filter_is_empty:
  assumes "0 < hc"
  shows "\<not> mightContain (BloomFilter_new sz hc) key"
proof -
  have "\<not> testBit sz (replicate n 0) h" for n h
    by (simp add: testBit_def Let_def)
  moreover have "0 \<in> set [0..<hc]"
    using assms by simp
  ultimately show ?thesis
    unfolding mightContain_def BloomFilter_new_def Let_def list_all_iff
    by (metis BloomFilter.select_convs(1,2,3))
qed

text \<open>
  C10. For a name that no level has, \<open>enableLevel\<close> and \<open>disableLevel\<close> return the
  manager as it is (the levels with their flags and their order, the counters, the Bloom
  filter) and log nothing; neither can throw.
\<close>

theorem unknown_level_noop:
  assumes "levelName \<notin> name ` set (levels this)"
  shows "enableLevel this levelName = (this, []) \<and> disableLevel this levelName = (this, [])"
proof -
  have "find (\<lambda>l. name l = levelName) (levels this) = None"
    using assms by (auto simp add: find_None_iff)
  then show ?thesis
    by (simp add: enableLevel_def disableLevel_def)
qed

theorem unknown_level_noop_witness:
  "''L3-Disk'' \<notin> name ` set (levels (exampleManager FbExecutor None None)) \<and>
   enableLevel (exampleManager FbExecutor None None) ''L3-Disk''
     = (exampleManager FbExecutor None None, []) \<and>
   disableLevel (exampleManager FbExecutor None None) ''L3-Disk''
     = (exampleManager FbExecutor None None, [])"
proof -
  have "''L3-Disk'' \<notin> name ` set (levels (exampleManager FbExecutor None None))"
    by (simp add: exampleManager_def twoLevels_def Let_def)
  then show ?thesis using unknown_level_noop by blast
qed

text \<open>
  C1, at an input of the repository's tests: two enabled levels, the key missing in
  L1-Memory (time to live 60000) and held by L2-Redis. \<open>get\<close> returns the value of
  L2-Redis, and its events are two reads and the lines of the log: there is no write to
  L1-Memory.
\<close>

theorem lower_level_hit_warms_nothing:
  "fst (MultiLevel_get exampleLevelImports 0 (exampleManager FbExecutor None (Some ''v''))
          ''k'' (Inr ''fresh'') emptyOptions) = Inr ''v'' \<and>
   snd (snd (MultiLevel_get exampleLevelImports 0 (exampleManager FbExecutor None (Some ''v''))
          ''k'' (Inr ''fresh'') emptyOptions)) =
     [Log Trace [''Checking level: L1-Memory for key: k''] None,
      LevelGet ''L1-Memory'' ''k'',
      Log Trace [''Checking level: L2-Redis for key: k''] None,
      LevelGet ''L2-Redis'' ''k'',
      Log Trace [''Hit in level: L2-Redis for key: k''] None]"
  by (simp add: MultiLevel_get_def exampleManager_def
      twoLevels_def exampleLevelImports_def bloomAllows_def bloomPassEvents_def answering_def
      populateHigherLevels_def Let_def bloomAdd_def)

lemma walkLevels_all_miss:
  assumes "\<forall>l\<in>set ls. enabled l \<longrightarrow> levelMisses l key"
  shows "\<exists>m' evs. walkLevels imp this key options ls m ev
             = (None, ml_bloomFilter this, m', ev @ evs) \<and> (\<forall>e\<in>set evs. isLogOrRead e)"
  using assms
proof (induction ls arbitrary: m ev)
  case Nil
  then show ?case by simp
next
  case (Cons l ls)
  then have rest: "\<forall>l\<in>set ls. enabled l \<longrightarrow> levelMisses l key" by simp
  note IH = Cons.IH [OF rest]
  show ?case
  proof (cases "enabled l")
    case False
    from IH [of m "ev @ [Log Trace [''Skipping disabled level: '' @ name l] None]"]
    obtain m' evs where
      "walkLevels imp this key options ls m
         (ev @ [Log Trace [''Skipping disabled level: '' @ name l] None])
       = (None, ml_bloomFilter this, m',
          (ev @ [Log Trace [''Skipping disabled level: '' @ name l] None]) @ evs)"
      and "\<forall>e\<in>set evs. isLogOrRead e"
      by blast
    then show ?thesis
      using False
      by (intro exI [of _ m'] exI [of _ "Log Trace [''Skipping disabled level: '' @ name l] None # evs"])
         (simp add: isLogOrRead_def)
  next
    case True
    then have miss: "levelMisses l key" using Cons.prems by simp
    let ?ev1 = "ev @ [Log Trace [''Checking level: '' @ name l @ '' for key: '' @ key] None,
                      LevelGet (name l) key]"
    show ?thesis
    proof (cases "sa_get (l_storage l) key")
      case (Inl e)
      let ?ev2 = "?ev1 @ [Log Warn [''Error accessing level '' @ name l @ '':''] (Some e)]"
      from IH [of "incMisses m (name l)" ?ev2]
      obtain m' evs where
        "walkLevels imp this key options ls (incMisses m (name l)) ?ev2
         = (None, ml_bloomFilter this, m', ?ev2 @ evs)"
        and "\<forall>e\<in>set evs. isLogOrRead e"
        by blast
      then show ?thesis
        using True Inl
        by (intro exI [of _ m']
              exI [of _ "[Log Trace [''Checking level: '' @ name l @ '' for key: '' @ key] None,
                          LevelGet (name l) key,
                          Log Warn [''Error accessing level '' @ name l @ '':''] (Some e)] @ evs"])
           (simp add: isLogOrRead_def)
    next
      case (Inr v)
      then have empty: "v = None \<or> v = Some []"
        using miss by (auto simp add: levelMisses_def split: option.splits)
      from IH [of "incMisses m (name l)" ?ev1]
      obtain m' evs where
        "walkLevels imp this key options ls (incMisses m (name l)) ?ev1
         = (None, ml_bloomFilter this, m', ?ev1 @ evs)"
        and "\<forall>e\<in>set evs. isLogOrRead e"
        by blast
      then show ?thesis
        using True Inr empty
        by (intro exI [of _ m']
              exI [of _ "[Log Trace [''Checking level: '' @ name l @ '' for key: '' @ key] None,
                          LevelGet (name l) key] @ evs"])
           (auto simp add: isLogOrRead_def)
    qed
  qed
qed

lemma bloomPassEvents_log: "\<forall>e\<in>set (bloomPassEvents bf key what). isLogOrRead e"
  by (simp add: bloomPassEvents_def isLogOrRead_def split: option.split)

text \<open>
  C7, as stated, fails for a manager with a Bloom filter that lacks the key: with the
  fallback strategy \<open>fail\<close> and two enabled levels that both miss, \<open>get\<close> does not reach
  the levels; it runs the executor and returns its value, and throws nothing.
\<close>

theorem bloom_rejection_runs_executor:
  "fallbackStrategy (bloomManager FbFail None None) = Some FbFail \<and>
   list_all (\<lambda>l. enabled l \<and> levelMisses l ''k'') (levels (bloomManager FbFail None None)) \<and>
   MultiLevel_get exampleLevelImports 0 (bloomManager FbFail None None)
     ''k'' (Inr ''fresh'') emptyOptions
   = (Inr ''fresh'', bloomManager FbFail None None,
      [Log Trace [''Bloom filter indicates key '' @ quoted ''k'' @
                  '' definitely doesn't exist, running executor directly''] None,
       RunExecutor])"
proof -
  have "\<not> mightContain (BloomFilter_new 96 7) ''k''"
    by (rule new_filter_is_empty) simp
  then have "\<not> bloomAllows (ml_bloomFilter (bloomManager FbFail None None)) ''k''"
    by (simp add: bloomManager_def bloomAllows_def)
  then have "MultiLevel_get exampleLevelImports 0 (bloomManager FbFail None None)
     ''k'' (Inr ''fresh'') emptyOptions
   = (Inr ''fresh'', bloomManager FbFail None None, bloomMissEvents ''k'')"
    by (simp add: MultiLevel_get_def exampleLevelImports_def)
  moreover have "fallbackStrategy (bloomManager FbFail None None) = Some FbFail"
    by (simp add: bloomManager_def exampleManager_def)
  moreover have "list_all (\<lambda>l. enabled l \<and> levelMisses l ''k'')
                   (levels (bloomManager FbFail None None))"
    by (simp add: bloomManager_def exampleManager_def twoLevels_def levelMisses_def answering_def)
  ultimately show ?thesis
    by (simp add: bloomMissEvents_def)
qed

text \<open>
  C7, amended. With the fallback strategy \<open>fail\<close>, in a call that passes the Bloom
  pre-check (no Bloom filter, or one that may contain the key) and in which every enabled
  level misses, by giving nothing or the empty string or by throwing, \<open>get\<close> throws the
  error \<open>Cache miss for key: <key>\<close>; the executor is not run, no level is written and
  the levels stay as they are.
\<close>

theorem fail_strategy_raises:
  assumes "fallbackStrategy this = Some FbFail"
    and "bloomAllows (ml_bloomFilter this) key"
    and "\<forall>l\<in>set (levels this). enabled l \<longrightarrow> levelMisses l key"
  shows "fst (MultiLevel_get imp now this key executor options)
           = Inl (Error (''Cache miss for key: '' @ key)) \<and>
         RunExecutor \<notin> set (snd (snd (MultiLevel_get imp now this key executor options))) \<and>
         (\<forall>e\<in>set (snd (snd (MultiLevel_get imp now this key executor options))).
            \<not> isLevelSet e) \<and>
         levels (fst (snd (MultiLevel_get imp now this key executor options))) = levels this"
proof -
  let ?ev0 = "bloomPassEvents (ml_bloomFilter this) key ''cache levels''"
  obtain m' evs where
    walk: "walkLevels imp this key options (levels this) (metrics this) ?ev0
             = (None, ml_bloomFilter this, m', ?ev0 @ evs)"
    and evs: "\<forall>e\<in>set evs. isLogOrRead e"
    using walkLevels_all_miss [OF assms(3)] by blast
  let ?ev = "?ev0 @ evs @ [Log Trace [''Cache miss for key: '' @ key @
                                      '', using fallback strategy''] None]"
  have get: "MultiLevel_get imp now this key executor options
               = (Inl (Error (''Cache miss for key: '' @ key)), this\<lparr>metrics := m'\<rparr>, ?ev)"
    using assms(1,2) walk by (simp add: MultiLevel_get_def)
  have "\<forall>e\<in>set ?ev. isLogOrRead e"
    using evs bloomPassEvents_log [of "ml_bloomFilter this" key "''cache levels''"]
    by (auto simp add: isLogOrRead_def)
  then have "RunExecutor \<notin> set ?ev" and "\<forall>e\<in>set ?ev. \<not> isLevelSet e"
    by (auto simp add: isLogOrRead_def isLevelSet_def split: event.splits)
  then show ?thesis
    by (simp add: get)
qed

theorem fail_strategy_raises_witness:
  "fallbackStrategy (exampleManager FbFail None (Some [])) = Some FbFail \<and>
   bloomAllows (ml_bloomFilter (exampleManager FbFail None (Some []))) ''k'' \<and>
   list_all (\<lambda>l. levelMisses l ''k'') (levels (exampleManager FbFail None (Some []))) \<and>
   fst (MultiLevel_get exampleLevelImports 0 (exampleManager FbFail None (Some []))
          ''k'' (Inr ''fresh'') emptyOptions) = Inl (Error ''Cache miss for key: k'') \<and>
   RunExecutor \<notin> set (snd (snd (MultiLevel_get exampleLevelImports 0
          (exampleManager FbFail None (Some [])) ''k'' (Inr ''fresh'') emptyOptions)))"
proof -
  let ?m = "exampleManager FbFail None (Some [])"
  have h1: "fallbackStrategy ?m = Some FbFail"
    by (simp add: exampleManager_def Let_def)
  have h2: "bloomAllows (ml_bloomFilter ?m) ''k''"
    by (simp add: exampleManager_def bloomAllows_def Let_def)
  have h3: "list_all (\<lambda>l. levelMisses l ''k'') (levels ?m)"
    by (simp add: exampleManager_def twoLevels_def Let_def
        levelMisses_def answering_def)
  then have h3': "\<forall>l\<in>set (levels ?m). enabled l \<longrightarrow> levelMisses l ''k''"
    by (simp add: list_all_iff)
  show ?thesis
    using h1 h2 h3
      fail_strategy_raises [OF h1 h2 h3', of exampleLevelImports 0 "Inr ''fresh''" emptyOptions]
    by simp
qed

section \<open>Properties of the single-tier managers\<close>

text \<open>
  C8. In a Read-Through or Write-Through \<open>get\<close> that reads the storage (the Bloom
  pre-check lets the key pass) and whose \<open>storage.get\<close> throws \<open>e\<close>, the error is not
  thrown on: the call logs it with the message of the fallback, runs the executor and
  returns what the executor returns, a value or the executor's own throw. The manager is
  unchanged and the recompute path of the base manager is not entered.
\<close>

theorem storage_read_failure_runs_executor:
  assumes "bloomAllows (bloomFilter this) key"
    and "st_get (storage this) key = Inl e"
  shows "ReadThrough_get imp currentDate this key executor options =
           (runExecutor imp executor, this,
            bloomPassEvents (bloomFilter this) key ''storage'' @
            [StorageGet key,
             Log Err [''Failed to get value from storage, falling back to executor''] (Some e),
             RunExecutor]) \<and>
         WriteThrough_get imp this key executor options =
           (runExecutor imp executor, this,
            bloomPassEvents (bloomFilter this) key ''storage'' @
            [StorageGet key,
             Log Err [''Failed to get value from storage, falling back to executor''] (Some e),
             RunExecutor])"
  using assms by (simp add: ReadThrough_get_def WriteThrough_get_def)

theorem storage_read_failure_runs_executor_witness:
  "bloomAllows (bloomFilter \<lparr>storage = failingStorage, bloomFilter = None\<rparr>) ''k'' \<and>
   st_get (storage \<lparr>storage = failingStorage, bloomFilter = None\<rparr>) ''k''
     = Inl (Error ''connection lost'') \<and>
   fst (ReadThrough_get exampleImports 5 \<lparr>storage = failingStorage, bloomFilter = None\<rparr>
          ''k'' (Inr ''fresh'') emptyOptions) = Inr ''fresh'' \<and>
   fst (WriteThrough_get exampleImports \<lparr>storage = failingStorage, bloomFilter = None\<rparr>
          ''k'' (Inl (Error ''executor failed'')) emptyOptions) = Inl (Error ''executor failed'')"
proof -
  let ?m = "\<lparr>storage = failingStorage, bloomFilter = None\<rparr>"
  have h1: "bloomAllows (bloomFilter ?m) ''k''"
    by (simp add: bloomAllows_def)
  have h2: "st_get (storage ?m) ''k'' = Inl (Error ''connection lost'')"
    by (simp add: failingStorage_def)
  show ?thesis
    using h1 h2
      storage_read_failure_runs_executor [OF h1 h2, of exampleImports 5 "Inr ''fresh''" emptyOptions]
      storage_read_failure_runs_executor [OF h1 h2, of exampleImports 5
        "Inl (Error ''executor failed'')" emptyOptions]
    by (simp add: exampleImports_def)
qed

text \<open>
  C4. In a Write-Through \<open>get\<close> whose storage read succeeds: a record with a defined
  value is served as it is, the result being the deserialized value and the events the
  read and the line \<open>hit\<close>; neither the clock nor \<open>isOutdated\<close> is consulted, whatever the
  record's age, permanence and tags. With no record, or a record whose value is undefined,
  the call enters the recompute path of the base manager.
\<close>

theorem WriteThrough_get_serves_stored_value:
  assumes "bloomAllows (bloomFilter this) key"
    and "st_get (storage this) key = Inr record"
  shows "(\<forall>r v. record = Some r \<and> r_value r = Some v \<longrightarrow>
            fst (WriteThrough_get imp this key executor options) = deserialize imp v \<and>
            snd (snd (WriteThrough_get imp this key executor options)) =
              bloomPassEvents (bloomFilter this) key ''storage'' @
              [StorageGet key, Log Trace [''hit'', key] None]) \<and>
         (record = None \<or> (\<exists>r. record = Some r \<and> r_value r = None) \<longrightarrow>
            fst (WriteThrough_get imp this key executor options) =
              updateCacheAndGetResult imp (key, executor, options) options \<and>
            UpdateCacheAndGetResult key
              \<in> set (snd (snd (WriteThrough_get imp this key executor options))))"
  using assms
  by (auto simp add: WriteThrough_get_def WriteThrough_isRecordValid_def Let_def
      split: sum.splits option.splits)

theorem WriteThrough_get_serves_stored_value_witness:
  "bloomAllows (bloomFilter \<lparr>storage = holdingStorage (Some (exampleRecord False)),
                              bloomFilter = None\<rparr>) ''k'' \<and>
   st_get (holdingStorage (Some (exampleRecord False))) ''k'' = Inr (Some (exampleRecord False)) \<and>
   r_value (exampleRecord False) = Some ''v'' \<and>
   fst (WriteThrough_get exampleImports
          \<lparr>storage = holdingStorage (Some (exampleRecord False)), bloomFilter = None\<rparr>
          ''k'' (Inr ''fresh'') emptyOptions) = Inr ''v'' \<and>
   fst (WriteThrough_get exampleImports
          \<lparr>storage = holdingStorage None, bloomFilter = None\<rparr>
          ''k'' (Inr ''fresh'') emptyOptions) = Inr ''fresh''"
proof -
  let ?m = "\<lparr>storage = holdingStorage (Some (exampleRecord False)), bloomFilter = None\<rparr>"
  let ?n = "\<lparr>storage = holdingStorage None, bloomFilter = None\<rparr> :: string Manager"
  have a1: "bloomAllows (bloomFilter ?m) ''k''" and a2: "bloomAllows (bloomFilter ?n) ''k''"
    by (simp_all add: bloomAllows_def)
  have g1: "st_get (storage ?m) ''k'' = Inr (Some (exampleRecord False))"
    and g2: "st_get (storage ?n) ''k'' = Inr None"
    by (simp_all add: holdingStorage_def)
  have v: "r_value (exampleRecord False) = Some ''v''"
    by (simp add: exampleRecord_def)
  show ?thesis
    using a1 g1 v
      WriteThrough_get_serves_stored_value [OF a1 g1, of exampleImports "Inr ''fresh''" emptyOptions]
      WriteThrough_get_serves_stored_value [OF a2 g2, of exampleImports "Inr ''fresh''" emptyOptions]
    by (simp add: exampleImports_def)
qed

text \<open>
  C3, as stated, fails when the storage read succeeds and \<open>isOutdated\<close> throws: the call
  to \<open>isOutdated\<close> stands outside the \<open>try\<close> of \<open>get\<close>. With a stored record that is
  time-valid at time 500 and a failing read of the tag versions, the record is not served,
  and the call does not enter the recompute path either: it throws the error of
  \<open>isOutdated\<close>.
\<close>

theorem outdated_check_failure_propagates:
  "st_get (tagFailingStorage (Some (exampleRecord False))) ''k''
     = Inr (Some (exampleRecord False)) \<and>
   \<not> spec_servable (tagFailingStorage (Some (exampleRecord False))) 500
       (Some (exampleRecord False)) \<and>
   ReadThrough_get exampleImports 500
     \<lparr>storage = tagFailingStorage (Some (exampleRecord False)), bloomFilter = None\<rparr>
     ''k'' (Inr ''fresh'') emptyOptions
   = (Inl (Error ''connection lost''),
      \<lparr>storage = tagFailingStorage (Some (exampleRecord False)), bloomFilter = None\<rparr>,
      [StorageGet ''k'', StorageIsOutdated (exampleRecord False)])"
  by (simp add: ReadThrough_get_def ReadThrough_isRecordValid_def spec_servable_def
      tagFailingStorage_def holdingStorage_def exampleRecord_def bloomAllows_def
      bloomPassEvents_def)

text \<open>
  C3, amended. In a Read-Through \<open>get\<close> whose storage read succeeds and whose
  \<open>isOutdated\<close> check, where it is made (for a record with a defined value that is
  time-valid), does not throw: the call returns the deserialized stored value when the
  record exists with a defined value, is time-valid at the moment of the check and
  \<open>isOutdated\<close> answers false, and then does not enter the recompute path; in every
  other case it enters the recompute path of the base manager and returns its result.
\<close>

theorem ReadThrough_get_serves_iff_servable:
  assumes "bloomAllows (bloomFilter this) key"
    and "st_get (storage this) key = Inr record"
    and "\<forall>r. record = Some r \<and> r_value r \<noteq> None \<and> spec_timeValid currentDate r \<longrightarrow>
             (\<exists>b. st_isOutdated (storage this) r = Inr b)"
  shows "(spec_servable (storage this) currentDate record \<longrightarrow>
            (\<exists>r v. record = Some r \<and> r_value r = Some v \<and>
               fst (ReadThrough_get imp currentDate this key executor options)
                 = deserialize imp v) \<and>
            UpdateCacheAndGetResult key
              \<notin> set (snd (snd (ReadThrough_get imp currentDate this key executor options)))) \<and>
         (\<not> spec_servable (storage this) currentDate record \<longrightarrow>
            fst (ReadThrough_get imp currentDate this key executor options) =
              updateCacheAndGetResult imp (key, executor, options) options \<and>
            UpdateCacheAndGetResult key
              \<in> set (snd (snd (ReadThrough_get imp currentDate this key executor options))))"
proof (cases "record")
  case None
  then show ?thesis
    using assms(1,2)
    by (simp add: ReadThrough_get_def ReadThrough_isRecordValid_def spec_servable_def)
next
  case (Some r)
  have no_update: "UpdateCacheAndGetResult key
      \<notin> set (bloomPassEvents (bloomFilter this) key ''storage'')"
    by (simp add: bloomPassEvents_def split: option.split)
  show ?thesis
  proof (cases "r_value r \<noteq> None \<and> spec_timeValid currentDate r")
    case True
    then obtain b where b: "st_isOutdated (storage this) r = Inr b"
      using assms(3) Some by blast
    show ?thesis
      using assms(1,2) Some b no_update True
      by (auto simp add: ReadThrough_get_def ReadThrough_isRecordValid_def spec_servable_def
          spec_timeValid_def Let_def split: sum.splits option.splits)
  next
    case False
    then show ?thesis
      using assms(1,2) Some no_update
      by (auto simp add: ReadThrough_get_def ReadThrough_isRecordValid_def spec_servable_def
          spec_timeValid_def Let_def split: sum.splits option.splits)
  qed
qed

theorem ReadThrough_get_serves_iff_servable_witness:
  "bloomAllows (bloomFilter \<lparr>storage = holdingStorage (Some (exampleRecord False)),
                              bloomFilter = None\<rparr>) ''k'' \<and>
   st_get (holdingStorage (Some (exampleRecord False))) ''k'' = Inr (Some (exampleRecord False)) \<and>
   st_isOutdated (holdingStorage (Some (exampleRecord False))) (exampleRecord False) = Inr False \<and>
   spec_servable (holdingStorage (Some (exampleRecord False))) 1000 (Some (exampleRecord False)) \<and>
   fst (ReadThrough_get exampleImports 1000
          \<lparr>storage = holdingStorage (Some (exampleRecord False)), bloomFilter = None\<rparr>
          ''k'' (Inr ''fresh'') emptyOptions) = Inr ''v'' \<and>
   \<not> spec_servable (tagFailingStorage (Some (exampleRecord False))) 1001
       (Some (exampleRecord False)) \<and>
   fst (ReadThrough_get exampleImports 1001
          \<lparr>storage = tagFailingStorage (Some (exampleRecord False)), bloomFilter = None\<rparr>
          ''k'' (Inr ''fresh'') emptyOptions) = Inr ''fresh''"
proof -
  let ?st = "holdingStorage (Some (exampleRecord False))"
  let ?tf = "tagFailingStorage (Some (exampleRecord False))"
  let ?m = "\<lparr>storage = ?st, bloomFilter = None\<rparr>"
  let ?n = "\<lparr>storage = ?tf, bloomFilter = None\<rparr>"
  have a: "bloomAllows (bloomFilter ?m) ''k''" and a': "bloomAllows (bloomFilter ?n) ''k''"
    by (simp_all add: bloomAllows_def)
  have g: "st_get (storage ?m) ''k'' = Inr (Some (exampleRecord False))"
    and g': "st_get (storage ?n) ''k'' = Inr (Some (exampleRecord False))"
    by (simp_all add: holdingStorage_def tagFailingStorage_def)
  have t: "\<forall>r. Some (exampleRecord False) = Some r \<and> r_value r \<noteq> None \<and>
               spec_timeValid 1000 r \<longrightarrow> (\<exists>b. st_isOutdated (storage ?m) r = Inr b)"
    by (auto simp add: holdingStorage_def)
  have t': "\<forall>r. Some (exampleRecord False) = Some r \<and> r_value r \<noteq> None \<and>
                spec_timeValid 1001 r \<longrightarrow> (\<exists>b. st_isOutdated (storage ?n) r = Inr b)"
    by (auto simp add: spec_timeValid_def exampleRecord_def)
  have s1: "spec_servable ?st 1000 (Some (exampleRecord False))"
    and s2: "\<not> spec_servable ?tf 1001 (Some (exampleRecord False))"
    by (simp_all add: spec_servable_def spec_timeValid_def exampleRecord_def holdingStorage_def
        tagFailingStorage_def)
  have r1: "fst (ReadThrough_get exampleImports 1000 ?m ''k'' (Inr ''fresh'') emptyOptions)
              = Inr ''v''"
    using s1
      ReadThrough_get_serves_iff_servable [OF a g t, of exampleImports "Inr ''fresh''" emptyOptions]
    by (auto simp add: exampleImports_def exampleRecord_def)
  have r2: "fst (ReadThrough_get exampleImports 1001 ?n ''k'' (Inr ''fresh'') emptyOptions)
              = Inr ''fresh''"
    using s2
      ReadThrough_get_serves_iff_servable [OF a' g' t', of exampleImports "Inr ''fresh''" emptyOptions]
    by (simp add: exampleImports_def)
  show ?thesis
    using a g s1 s2 r1 r2 by (simp add: holdingStorage_def)
qed

text \<open>
  C5. Write-Through \<open>set\<close> hands the write to the storage with the caller's options
  spread and \<open>permanent = true\<close> set over them, for every key, value and options, absent
  ones and ones with \<open>permanent = false\<close> included: its result is that of
  \<open>storage.set\<close> on these options, and this is its only call. With a storage that
  honours \<open>permanent\<close>, the record written is permanent, and whether a manager takes it
  for valid does not depend on the time: it is never expired.
\<close>

theorem WriteThrough_set_writes_permanent:
  "fst (WriteThrough_set this key v options) =
     st_set (storage this) key v
       (Some ((case options of None \<Rightarrow> emptyOptions | Some opts \<Rightarrow> opts)
                \<lparr>opt_permanent := Some True\<rparr>)) \<and>
   snd (snd (WriteThrough_set this key v options)) =
     [StorageSet key v
        (Some ((case options of None \<Rightarrow> emptyOptions | Some opts \<Rightarrow> opts)
                 \<lparr>opt_permanent := Some True\<rparr>))] \<and>
   opt_permanent ((case options of None \<Rightarrow> emptyOptions | Some opts \<Rightarrow> opts)
                    \<lparr>opt_permanent := Some True\<rparr>) = Some True \<and>
   ((\<forall>w written. st_set (storage this) key v (Some w) = Inr written \<and>
        opt_permanent w = Some True \<longrightarrow> permanent written) \<longrightarrow>
    (\<forall>written now. fst (WriteThrough_set this key v options) = Inr written \<longrightarrow>
        permanent written \<and>
        ReadThrough_isRecordValid now (Some written) = (r_value written \<noteq> None) \<and>
        RefreshAhead_isRecordValid now (Some written) = (r_value written \<noteq> None) \<and>
        WriteThrough_isRecordValid (Some written) = (r_value written \<noteq> None)))"
proof -
  let ?w = "(case options of None \<Rightarrow> emptyOptions | Some opts \<Rightarrow> opts)\<lparr>opt_permanent := Some True\<rparr>"
  have result: "fst (WriteThrough_set this key v options) = st_set (storage this) key v (Some ?w)"
    by (simp add: WriteThrough_set_def Let_def split: sum.splits)
  have trace: "snd (snd (WriteThrough_set this key v options)) = [StorageSet key v (Some ?w)]"
    by (simp add: WriteThrough_set_def Let_def split: sum.splits)
  have flag: "opt_permanent ?w = Some True"
    by simp
  have valid: "ReadThrough_isRecordValid now (Some r) = (r_value r \<noteq> None) \<and>
               RefreshAhead_isRecordValid now (Some r) = (r_value r \<noteq> None) \<and>
               WriteThrough_isRecordValid (Some r) = (r_value r \<noteq> None)"
    if "permanent r" for r :: "'a Record" and now
    using that
    by (simp add: ReadThrough_isRecordValid_def RefreshAhead_isRecordValid_def
        WriteThrough_isRecordValid_def)
  have written: "permanent written"
    if "\<forall>w written. st_set (storage this) key v (Some w) = Inr written \<and>
          opt_permanent w = Some True \<longrightarrow> permanent written"
      and "fst (WriteThrough_set this key v options) = Inr written" for written
    using that flag unfolding result by blast
  show ?thesis
    using result trace flag valid written by blast
qed

theorem WriteThrough_set_writes_permanent_witness:
  "fst (WriteThrough_set \<lparr>storage = holdingStorage None, bloomFilter = None\<rparr> ''k'' ''v''
          (Some (emptyOptions\<lparr>opt_expiresIn := Some 1000, opt_permanent := Some False\<rparr>))) =
     Inr \<lparr>r_key = ''k'', r_value = Some ''v'', createdAt = 0, expiresIn = 1000,
          permanent = True, tags = []\<rparr> \<and>
   snd (snd (WriteThrough_set \<lparr>storage = holdingStorage None, bloomFilter = None\<rparr> ''k'' ''v''
          (Some (emptyOptions\<lparr>opt_expiresIn := Some 1000, opt_permanent := Some False\<rparr>)))) =
     [StorageSet ''k'' ''v''
        (Some (emptyOptions\<lparr>opt_expiresIn := Some 1000, opt_permanent := Some True\<rparr>))] \<and>
   ReadThrough_isRecordValid 5000
     (Some \<lparr>r_key = ''k'', r_value = Some ''v'', createdAt = 0, expiresIn = 1000,
            permanent = True, tags = []\<rparr>)"
proof -
  let ?m = "\<lparr>storage = holdingStorage None, bloomFilter = None\<rparr> :: string Manager"
  let ?o = "Some (emptyOptions\<lparr>opt_expiresIn := Some 1000, opt_permanent := Some False\<rparr>)"
  let ?r = "\<lparr>r_key = ''k'', r_value = Some ''v'', createdAt = 0, expiresIn = 1000,
             permanent = True, tags = []\<rparr> :: string Record"
  note w = WriteThrough_set_writes_permanent [of ?m "''k''" "''v''" ?o]
  have honours: "\<forall>w written. st_set (storage ?m) ''k'' ''v'' (Some w) = Inr written \<and>
                   opt_permanent w = Some True \<longrightarrow> permanent written"
    by (auto simp add: holdingStorage_def)
  have r1: "fst (WriteThrough_set ?m ''k'' ''v'' ?o) = Inr ?r"
    using w [THEN conjunct1] by (simp add: holdingStorage_def emptyOptions_def)
  have r2: "snd (snd (WriteThrough_set ?m ''k'' ''v'' ?o)) =
              [StorageSet ''k'' ''v''
                 (Some (emptyOptions\<lparr>opt_expiresIn := Some 1000, opt_permanent := Some True\<rparr>))]"
    using w [THEN conjunct2, THEN conjunct1] by (simp add: emptyOptions_def)
  have "ReadThrough_isRecordValid 5000 (Some ?r) = (r_value ?r \<noteq> None)"
    using w [THEN conjunct2, THEN conjunct2, THEN conjunct2] honours r1 by blast
  then have r3: "ReadThrough_isRecordValid 5000 (Some ?r)"
    by simp
  show ?thesis
    using r1 r2 r3 by simp
qed

text \<open>
  C2, as stated, fails at the factor \<open>Infinity\<close>, which is at least 1: the range check
  stands under \<open>isFinite\<close>, and the constructor returns a manager with that factor.
\<close>

theorem infinite_factor_accepted:
  "RefreshAheadManager_constructor
     \<lparr>o_storage = failingStorage, o_refreshAheadFactor = Some PosInf,
      o_enableBloomFilter = False, o_bloomFilterOptions = None\<rparr>
   = Inr (\<lparr>ra_storage = failingStorage, ra_bloomFilter = None, refreshAheadFactor = PosInf\<rparr>, [])"
  by (simp add: RefreshAheadManager_constructor_def js_falsy_def)

text \<open>
  C2, amended. For every finite factor \<open>q\<close> with \<open>q < 0\<close> or \<open>q \<ge> 1\<close> the constructor
  throws; an infinite factor is not range-checked and the constructor returns a manager,
  unless the construction of the Bloom filter it was asked for throws.
\<close>

theorem factor_range_check:
  "(\<forall>q. o_refreshAheadFactor options = Some (Fin q) \<and> (q < 0 \<or> 1 \<le> q) \<longrightarrow>
       isl (RefreshAheadManager_constructor options)) \<and>
   (o_refreshAheadFactor options = Some PosInf \<or> o_refreshAheadFactor options = Some NegInf \<longrightarrow>
       isl (RefreshAheadManager_constructor options) =
         (o_enableBloomFilter options \<and>
          (\<exists>bo e. o_bloomFilterOptions options = Some bo \<and> bo_sizing bo = Unallocatable e)))"
  by (auto simp add: RefreshAheadManager_constructor_def js_falsy_def Let_def
      BloomFilter_constructor_def split: option.splits sizing.splits)

theorem factor_range_check_witness:
  "isl (RefreshAheadManager_constructor
          \<lparr>o_storage = failingStorage, o_refreshAheadFactor = Some (Fin (-1)),
           o_enableBloomFilter = False, o_bloomFilterOptions = None\<rparr>) \<and>
   isl (RefreshAheadManager_constructor
          \<lparr>o_storage = failingStorage, o_refreshAheadFactor = Some (Fin 1),
           o_enableBloomFilter = False, o_bloomFilterOptions = None\<rparr>) \<and>
   \<not> isl (RefreshAheadManager_constructor
          \<lparr>o_storage = failingStorage, o_refreshAheadFactor = Some NegInf,
           o_enableBloomFilter = False, o_bloomFilterOptions = None\<rparr>)"
  using
    factor_range_check [of "\<lparr>o_storage = failingStorage, o_refreshAheadFactor = Some (Fin (-1)),
           o_enableBloomFilter = False, o_bloomFilterOptions = None\<rparr>"]
    factor_range_check [of "\<lparr>o_storage = failingStorage, o_refreshAheadFactor = Some (Fin 1),
           o_enableBloomFilter = False, o_bloomFilterOptions = None\<rparr>"]
    factor_range_check [of "\<lparr>o_storage = failingStorage, o_refreshAheadFactor = Some NegInf,
           o_enableBloomFilter = False, o_bloomFilterOptions = None\<rparr>"]
  by simp




text \<open>
  \<open>toDouble\<close> on some numbers, with the doubles that IEEE 754 gives: a third, a
  tenth, a negative number and the ties at the integers past \<open>2 ^ 53\<close>.
\<close>

lemma toDouble_examples:
  "toDouble (1 / 3) = Fin (6004799503160661 / 2 ^ 54)"
  "toDouble (1 / 10) = Fin (3602879701896397 / 2 ^ 55)"
  "toDouble (- (29 / 100)) = Fin (- (5224175567749775 / 2 ^ 54))"
  "toDouble (2 ^ 53 + 1) = Fin (2 ^ 53)"
  "toDouble (2 ^ 53 + 3) = Fin (2 ^ 53 + 4)"
  by code_simp+







end
